theory Spec2Isabelle
  imports Main
begin

section \<open>Values handed from one construct to another\<close>

text \<open>
  The stack of \<^verbatim>\<open>cdk/lib/main.ts\<close> is a sequence of construct declarations. What one
  construct hands to the next is not a concrete string but a reference that the
  provisioning engine resolves at deploy time (\<^verbatim>\<open>api.arn\<close>, \<^verbatim>\<open>connection.attrArn\<close>).
  Such a reference is kept symbolic: \<open>Attr c p\<close> is property \<open>p\<close> of the construct
  declared under the identifier \<open>c\<close>.
\<close>

type_synonym ident = string

datatype tok =
    Str string
  | Attr ident string
  | Pseudo string
  | Cat "tok list"

text \<open>
  \<open>Pseudo\<close> stands for the stack's own \<^verbatim>\<open>this.region\<close> and \<^verbatim>\<open>this.account\<close>;
  \<open>Cat\<close> is a JavaScript template literal with interpolations.

  Property bags are JavaScript object literals. Besides strings they hold enum members
  (\<^verbatim>\<open>AuthorizationType.API_KEY\<close>), construct objects passed whole
  (\<^verbatim>\<open>handler: authorizerFunction\<close>), and the small helper objects of the construct
  library.
\<close>

datatype val =
    T tok
  | Enum string
  | Construct ident
  | ServicePrincipal string
  | PathJoin "string list"
  | SchemaFromAsset val
  | MappingTemplateFromString string
  | PolicyDocument val
  | PolicyStatement val
  | Arr "val list"
  | Obj "(string \<times> val) list"
  | Undefined

abbreviation str :: "string \<Rightarrow> val" where
  "str s \<equiv> T (Str s)"

text \<open>Property access \<^verbatim>\<open>o.k\<close>: a missing property reads as \<^verbatim>\<open>undefined\<close>.\<close>

fun field :: "string \<Rightarrow> val \<Rightarrow> val" where
  "field k (Obj kvs) = (case map_of kvs k of Some v \<Rightarrow> v | None \<Rightarrow> Undefined)"
| "field k (PolicyDocument v) = field k v"
| "field k (PolicyStatement v) = field k v"
| "field k _ = Undefined"

fun path :: "string list \<Rightarrow> val \<Rightarrow> val" where
  "path [] v = v"
| "path (k # ks) v = path ks (field k v)"

text \<open>
  The constructs a value refers to, each with what is passed: one of its properties, or
  the construct object itself.
\<close>

datatype passed = Property string | Itself

fun tok_refs :: "tok \<Rightarrow> (ident \<times> passed) list" where
  "tok_refs (Str s) = []"
| "tok_refs (Attr c p) = [(c, Property p)]"
| "tok_refs (Pseudo p) = []"
| "tok_refs (Cat ts) = concat (map tok_refs ts)"

fun val_refs :: "val \<Rightarrow> (ident \<times> passed) list" where
  "val_refs (T t) = tok_refs t"
| "val_refs (Enum e) = []"
| "val_refs (Construct c) = [(c, Itself)]"
| "val_refs (ServicePrincipal s) = []"
| "val_refs (PathJoin ps) = []"
| "val_refs (SchemaFromAsset v) = val_refs v"
| "val_refs (MappingTemplateFromString s) = []"
| "val_refs (PolicyDocument v) = val_refs v"
| "val_refs (PolicyStatement v) = val_refs v"
| "val_refs (Arr vs) = concat (map val_refs vs)"
| "val_refs (Obj kvs) = concat (map (\<lambda>kv. val_refs (snd kv)) kvs)"
| "val_refs Undefined = []"

section \<open>Constructs and the stack\<close>

datatype kind =
    CfnParameter
  | Auth
  | PythonFunction
  | GraphqlApi
  | Permission
  | NoneDataSource
  | Resolver
  | CfnEventBus
  | CfnConnection
  | CfnApiDestination
  | Role
  | CfnRule
  | CfnOutput

text \<open>
  \<open>owner\<close> is \<open>None\<close> for a construct declared with \<^verbatim>\<open>new K(this, id, props)\<close> and
  \<open>Some c\<close> for one created through a method of construct \<open>c\<close>
  (\<^verbatim>\<open>addPermission\<close>, \<^verbatim>\<open>addNoneDataSource\<close>, \<^verbatim>\<open>createResolver\<close>).
  \<open>dependsOn\<close> collects the explicit dependencies of the construct, each with who
  declared it: the constructor of the stack, by a call of \<^verbatim>\<open>addDependsOn\<close>, or the
  construct library on its own when it creates the construct. What the library declares
  is not in \<^verbatim>\<open>main.ts\<close>; it is a parameter, a function of the kind and the
  identifier of the construct.
\<close>

datatype declarer = ByLibrary | ByConstructor

type_synonym library = "kind \<Rightarrow> ident \<Rightarrow> ident list"

record construct =
  cid :: ident
  kind :: kind
  owner :: "ident option"
  props :: val
  dependsOn :: "(declarer \<times> ident) list"

record stack =
  stack_id :: string
  constructs :: "construct list"

definition by_library :: "library \<Rightarrow> kind \<Rightarrow> ident \<Rightarrow> (declarer \<times> ident) list" where
  "by_library l k i = map (Pair ByLibrary) (l k i)"

definition new :: "library \<Rightarrow> kind \<Rightarrow> ident \<Rightarrow> val \<Rightarrow> stack \<Rightarrow> stack" where
  "new l k i p s =
     s\<lparr>constructs := constructs s @
        [\<lparr>cid = i, kind = k, owner = None, props = p, dependsOn = by_library l k i\<rparr>]\<rparr>"

definition new_through ::
  "library \<Rightarrow> ident \<Rightarrow> kind \<Rightarrow> ident \<Rightarrow> val \<Rightarrow> stack \<Rightarrow> stack" where
  "new_through l c k i p s =
     s\<lparr>constructs := constructs s @
        [\<lparr>cid = i, kind = k, owner = Some c, props = p, dependsOn = by_library l k i\<rparr>]\<rparr>"

definition addDependsOn :: "ident \<Rightarrow> ident \<Rightarrow> stack \<Rightarrow> stack" where
  "addDependsOn c target s =
     s\<lparr>constructs :=
        map (\<lambda>x. if cid x = c
                 then x\<lparr>dependsOn := dependsOn x @ [(ByConstructor, target)]\<rparr> else x)
            (constructs s)\<rparr>"

definition lookup :: "ident \<Rightarrow> stack \<Rightarrow> construct option" where
  "lookup i s = find (\<lambda>x. cid x = i) (constructs s)"

definition of_kind :: "kind \<Rightarrow> stack \<Rightarrow> construct list" where
  "of_kind k s = filter (\<lambda>x. kind x = k) (constructs s)"

text \<open>
  Three ways in which one construct can depend on another: a value of the second occurs
  in the property bag of the first (\<open>reference_deps\<close>, with what is passed); the first
  is created through a method of the second (\<open>owner_links\<close>); the first carries an
  explicit dependency on the second (\<open>explicit_deps\<close>, by declarer).
\<close>

definition reference_deps :: "stack \<Rightarrow> (ident \<times> ident \<times> passed) list" where
  "reference_deps s =
     concat (map (\<lambda>x. map (Pair (cid x)) (val_refs (props x))) (constructs s))"

definition owner_links :: "stack \<Rightarrow> (ident \<times> ident) list" where
  "owner_links s =
     concat (map (\<lambda>x. case owner x of None \<Rightarrow> [] | Some c \<Rightarrow> [(cid x, c)]) (constructs s))"

definition explicit_deps :: "declarer \<Rightarrow> stack \<Rightarrow> (ident \<times> ident) list" where
  "explicit_deps w s =
     concat (map (\<lambda>x. map (Pair (cid x)) (map snd (filter (\<lambda>d. fst d = w) (dependsOn x))))
                 (constructs s))"

text \<open>
  Whether the name of a property says that it is an ARN or an identifier.
  \<^verbatim>\<open>ref\<close> is the identifier the provisioning engine gives a resource.
\<close>

definition ends_with :: "string \<Rightarrow> string \<Rightarrow> bool" where
  "ends_with x p = (drop (length p - length x) p = x)"

definition arn_or_id :: "string \<Rightarrow> bool" where
  "arn_or_id p = (p = ''arn'' \<or> ends_with ''Arn'' p \<or> ends_with ''Id'' p \<or> p = ''ref'')"

section \<open>String helpers of the source language\<close>

text \<open>
  Characters are the code units of the JavaScript string; every literal of the source
  is ASCII. \<open>js_space\<close> is the class \<^verbatim>\<open>\s\<close> of a JavaScript regular expression,
  restricted to code units below 256: tab, line feed, vertical tab, form feed, carriage
  return, space and the no-break space.
\<close>

definition js_space :: "char \<Rightarrow> bool" where
  "js_space c =
     (c = CHR 0x09 \<or> c = CHR 0x0A \<or> c = CHR 0x0B \<or> c = CHR 0x0C \<or> c = CHR 0x0D \<or>
      c = CHR 0x20 \<or> c = CHR 0xA0)"

text \<open>
  \<^verbatim>\<open>s.replace(/\n\s*/g, ' ')\<close>: scanning from the left, a line feed together with the
  longest run of white space after it becomes one space; every other character is
  copied.
\<close>

function replace_newline_space :: "string \<Rightarrow> string" where
  "replace_newline_space [] = []"
| "replace_newline_space (c # cs) =
     (if c = CHR 0x0A then CHR 0x20 # replace_newline_space (dropWhile js_space cs)
      else c # replace_newline_space cs)"
  by pat_completeness auto
termination
  by (relation "measure length") (auto simp: length_dropWhile_le less_Suc_eq_le)

text \<open>
  \<^verbatim>\<open>a || b\<close> on two values of type \<^verbatim>\<open>string | undefined\<close>: the left operand when it is
  truthy (defined and not the empty string), the right operand otherwise.
\<close>

definition js_or :: "string option \<Rightarrow> string option \<Rightarrow> string option" where
  "js_or a b = (case a of None \<Rightarrow> b | Some x \<Rightarrow> if x = [] then b else Some x)"

fun opt_str :: "string option \<Rightarrow> val" where
  "opt_str None = Undefined"
| "opt_str (Some x) = str x"

fun opt_tok :: "tok option \<Rightarrow> val" where
  "opt_tok None = Undefined"
| "opt_tok (Some t) = T t"

section \<open>The two mapping templates\<close>

definition requestTemplate :: string where
  \<open>requestTemplate =
     ''\<newline>#set( $createdAt = $util.time.nowISO8601() )\<newline>$util.qr($context.args.put("createdAt", $createdAt))\<newline>$util.qr($context.args.put("updatedAt", $createdAt))\<newline>{\<newline>  "version": "2017-02-28",\<newline>  "payload": $util.toJson($ctx.args)\<newline>}''\<close>

definition responseTemplate :: string where
  \<open>responseTemplate = ''$util.toJson($context.result)''\<close>

text \<open>
  The templates are programs of the template language of the managed GraphQL service,
  which evaluates them once per request. Their shallow embedding follows. The service
  supplies the request context and the \<^verbatim>\<open>$util\<close> helpers; the helpers are parameters
  here. The clock is read through a counter, so that two reads need not agree:
  \<open>time_nowISO8601 u n\<close> is what the \<open>n\<close>-th read returns.
\<close>

datatype json =
    JNull
  | JBool bool
  | JNum int
  | JStr string
  | JArr "json list"
  | JObj "(string \<times> json) list"

record request_context =
  arguments :: "(string \<times> json) list"
  result :: json

record util =
  time_nowISO8601 :: "nat \<Rightarrow> string"
  toJson :: "json \<Rightarrow> string"

record vtl_state =
  ctx :: request_context
  clock_reads :: nat

text \<open>\<^verbatim>\<open>map.put(k, v)\<close>: the entry of an existing key is replaced, a new key is added.\<close>

fun put :: "string \<Rightarrow> json \<Rightarrow> (string \<times> json) list \<Rightarrow> (string \<times> json) list" where
  "put k v [] = [(k, v)]"
| "put k v (e # es) = (if fst e = k then (k, v) # es else e # put k v es)"

definition nowISO8601 :: "util \<Rightarrow> vtl_state \<Rightarrow> string \<times> vtl_state" where
  "nowISO8601 u s = (time_nowISO8601 u (clock_reads s), s\<lparr>clock_reads := Suc (clock_reads s)\<rparr>)"

definition args_put :: "string \<Rightarrow> json \<Rightarrow> vtl_state \<Rightarrow> vtl_state" where
  "args_put k v s = s\<lparr>ctx := (ctx s)\<lparr>arguments := put k v (arguments (ctx s))\<rparr>\<rparr>"

text \<open>
  The request template emits a JSON document with the two members \<^verbatim>\<open>version\<close> and
  \<^verbatim>\<open>payload\<close>; the text of the second is whatever \<^verbatim>\<open>$util.toJson\<close> prints. The
  \<^verbatim>\<open>#set\<close> line and the two \<^verbatim>\<open>$util.qr\<close> lines print nothing. \<^verbatim>\<open>$ctx\<close> is the
  service's short name of \<^verbatim>\<open>$context\<close>.
\<close>

record document =
  version :: string
  payload :: string

definition requestTemplate_render :: "util \<Rightarrow> vtl_state \<Rightarrow> document \<times> vtl_state" where
  "requestTemplate_render u s =
     (let (createdAt, s1) = nowISO8601 u s;
          s2 = args_put ''createdAt'' (JStr createdAt) s1;
          s3 = args_put ''updatedAt'' (JStr createdAt) s2
      in (\<lparr>version = ''2017-02-28'', payload = toJson u (JObj (arguments (ctx s3)))\<rparr>, s3))"

definition responseTemplate_render :: "util \<Rightarrow> vtl_state \<Rightarrow> string" where
  "responseTemplate_render u s = toJson u (result (ctx s))"

section \<open>The stack\<close>

text \<open>
  What the constructor reads from outside: its \<^verbatim>\<open>id\<close> argument, \<^verbatim>\<open>__dirname\<close>, two
  variables of \<^verbatim>\<open>process.env\<close>, and the \<^verbatim>\<open>apiKey\<close> property of the GraphQL API
  construct. That property has type \<^verbatim>\<open>string | undefined\<close> and is computed by the
  construct library from the property bag of the API, so it is a parameter. So are the
  explicit dependencies that the construct library declares on its own.
\<close>

record env =
  id_arg :: string
  dirname :: string
  CDK_DEPLOYED_ACCOUNT :: "string option"
  CDK_DEFAULT_ACCOUNT :: "string option"
  apiKey_of :: "val \<Rightarrow> tok option"
  library_dependsOn :: library

definition authDomainParameter_props :: val where
  "authDomainParameter_props =
     Obj [(''type'', str ''String''),
          (''description'', str ''Unique domain name for auth'')]"

definition auth_props :: val where
  "auth_props = Obj [(''authDomainPrefix'', T (Attr ''authDomainName'' ''valueAsString''))]"

definition authorizerFunction_props :: "env \<Rightarrow> val" where
  "authorizerFunction_props e =
     Obj [(''entry'', PathJoin [dirname e, ''authorizer'']),
          (''index'', str ''app.py''),
          (''runtime'', Enum ''PYTHON_3_8''),
          (''environment'',
             Obj [(''USER_POOL_ID'', T (Attr ''Auth'' ''userPoolId'')),
                  (''APP_CLIENT_ID'', T (Attr ''Auth'' ''destinationClientId''))])]"

definition api_props :: "env \<Rightarrow> val" where
  "api_props e =
     Obj [(''name'', str ''TriggeredByEventBridge''),
          (''schema'', SchemaFromAsset (PathJoin [dirname e, ''schema.graphql''])),
          (''authorizationConfig'',
             Obj [(''defaultAuthorization'',
                     Obj [(''authorizationType'', Enum ''API_KEY'')]),
                  (''additionalAuthorizationModes'',
                     Arr [Obj [(''authorizationType'', Enum ''LAMBDA''),
                               (''lambdaAuthorizerConfig'',
                                  Obj [(''handler'', Construct ''AuthorizerFunction'')])]])])]"

definition permission_props :: "env \<Rightarrow> val" where
  "permission_props e =
     Obj [(''principal'', ServicePrincipal ''appsync.amazonaws.com''),
          (''sourceArn'', T (Attr ''Api'' ''arn'')),
          (''sourceAccount'', opt_str (js_or (CDK_DEPLOYED_ACCOUNT e) (CDK_DEFAULT_ACCOUNT e)))]"

definition resolver_props :: val where
  "resolver_props =
     Obj [(''typeName'', str ''Mutation''),
          (''fieldName'', str ''updateTodo''),
          (''requestMappingTemplate'', MappingTemplateFromString requestTemplate),
          (''responseMappingTemplate'', MappingTemplateFromString responseTemplate)]"

definition bus_props :: val where
  "bus_props = Obj [(''name'', str ''todos'')]"

definition connection_props :: val where
  "connection_props =
     Obj [(''authorizationType'', str ''OAUTH_CLIENT_CREDENTIALS''),
          (''authParameters'',
             Obj [(''OAuthParameters'',
                Obj [(''AuthorizationEndpoint'',
                        T (Cat [Attr ''Auth'' ''authEndpoint'', Str ''/oauth2/token''])),
                     (''ClientParameters'',
                        Obj [(''ClientID'', T (Attr ''Auth'' ''destinationClientId'')),
                             (''ClientSecret'', T (Attr ''Auth'' ''destinationClientSecret''))]),
                     (''HttpMethod'', str ''POST''),
                     (''OAuthHttpParameters'',
                        Obj [(''BodyParameters'',
                                Arr [Obj [(''Key'', str ''grant_type''),
                                          (''Value'', str ''client_credentials'')]])])])])]"

definition destination_props :: val where
  "destination_props =
     Obj [(''connectionArn'', T (Attr ''connection'' ''attrArn'')),
          (''httpMethod'', str ''POST''),
          (''invocationEndpoint'', T (Attr ''Api'' ''graphqlUrl''))]"

definition role_props :: val where
  "role_props =
     Obj [(''assumedBy'', ServicePrincipal ''events.amazonaws.com''),
          (''inlinePolicies'',
             Obj [(''invokeAPI'',
                PolicyDocument (Obj [(''statements'',
                  Arr [PolicyStatement (Obj
                    [(''resources'',
                        Arr [T (Cat [Str ''arn:aws:events:'', Pseudo ''region'', Str '':'',
                                     Pseudo ''account'', Str '':api-destination/'',
                                     Attr ''destination'' ''ref'', Str ''/*''])]),
                     (''actions'', Arr [str ''events:InvokeApiDestination''])])])]))])]"

definition inputTemplate_literal :: string where
  \<open>inputTemplate_literal =
     ''{\<newline>              "query": "mutation UpdateTodo($id:ID!, $name:String, $description:String) {\<newline>                updateTodo(id:$id, name:$name, description:$description) { id name description createdAt updatedAt }\<newline>              }",\<newline>              "variables": {\<newline>                "id": "<id>",\<newline>                "name": "<name>",\<newline>                "description": "<description>"\<newline>              }\<newline>            }''\<close>

definition rule_props :: val where
  "rule_props =
     Obj [(''name'', str ''default-todo-rule''),
          (''eventBusName'', T (Attr ''bus'' ''attrName'')),
          (''eventPattern'',
             Obj [(''source'', Arr [str ''todos.system'']),
                  (''detail-type'', Arr [str ''todos update''])]),
          (''targets'',
             Arr [Obj [(''id'', str ''default-target-appsync''),
                       (''arn'', T (Attr ''destination'' ''attrArn'')),
                       (''roleArn'', T (Attr ''role'' ''roleArn'')),
                       (''inputTransformer'',
                          Obj [(''inputPathsMap'',
                                  Obj [(''id'', str ''$.detail.todo-id''),
                                       (''name'', str ''$.detail.name''),
                                       (''description'', str ''$.detail.description'')]),
                               (''inputTemplate'',
                                  str (replace_newline_space inputTemplate_literal))])]])]"

text \<open>
  The constructor, statement by statement. The resolver is created without an
  identifier of its own, so its \<open>cid\<close> is left empty. The non-null assertion in
  \<^verbatim>\<open>api.apiKey!\<close> is erased by the compiler: the value reaches the output as the
  library left it, defined or not. \<^verbatim>\<open>api.name\<close> is the name the API was given in its
  property bag, a plain string and not a reference resolved at deploy time.
\<close>

definition MainStack :: "env \<Rightarrow> stack" where
  "MainStack e =
     (let l = library_dependsOn e;
          s = \<lparr>stack_id = id_arg e, constructs = []\<rparr>;
          s = new l CfnParameter ''authDomainName'' authDomainParameter_props s;
          s = new l Auth ''Auth'' auth_props s;
          s = new l PythonFunction ''AuthorizerFunction'' (authorizerFunction_props e) s;
          s = new l GraphqlApi ''Api'' (api_props e) s;
          s = new_through l ''AuthorizerFunction'' Permission ''AppSyncInvokeLambdaPermission''
                (permission_props e) s;
          s = new_through l ''Api'' NoneDataSource ''NONE'' (Obj []) s;
          s = new_through l ''NONE'' Resolver [] resolver_props s;
          s = new l CfnEventBus ''bus'' bus_props s;
          s = new l CfnConnection ''connection'' connection_props s;
          s = new l CfnApiDestination ''destination'' destination_props s;
          s = new l Role ''role'' role_props s;
          s = new l CfnRule ''rule'' rule_props s;
          s = addDependsOn ''rule'' ''bus'' s;
          s = new l CfnOutput ''apiId'' (Obj [(''value'', T (Attr ''Api'' ''apiId''))]) s;
          s = new l CfnOutput ''apiName'' (Obj [(''value'', field ''name'' (api_props e))]) s;
          s = new l CfnOutput ''graphqlUrl''
                (Obj [(''value'', T (Attr ''Api'' ''graphqlUrl''))]) s;
          s = new l CfnOutput ''apiKey''
                (Obj [(''value'', opt_tok (apiKey_of e (api_props e)))]) s
      in s)"

text \<open>
  A sample environment: no account variable is set, the library issues a key, and the
  library makes the resolver depend on its data source.
\<close>

definition sample_env :: env where
  "sample_env =
     \<lparr>id_arg = ''MainStack'', dirname = ''/cdk/lib'',
      CDK_DEPLOYED_ACCOUNT = None, CDK_DEFAULT_ACCOUNT = None,
      apiKey_of = (\<lambda>p. if path [''authorizationConfig'', ''defaultAuthorization'',
                                   ''authorizationType''] p = Enum ''API_KEY''
                         then Some (Attr ''Api'' ''apiKey'') else None),
      library_dependsOn = (\<lambda>k i. if k = Resolver then [''NONE''] else [])\<rparr>"

section \<open>Reading a synthesized stack\<close>

definition props_of :: "ident \<Rightarrow> stack \<Rightarrow> val" where
  "props_of i s = (case lookup i s of Some c \<Rightarrow> props c | None \<Rightarrow> Undefined)"

definition kind_of :: "ident \<Rightarrow> stack \<Rightarrow> kind option" where
  "kind_of i s = map_option kind (lookup i s)"

definition rule_targets :: "stack \<Rightarrow> val list" where
  "rule_targets s = (case field ''targets'' (props_of ''rule'' s) of Arr ts \<Rightarrow> ts | _ \<Rightarrow> [])"

definition permissions_of :: "ident \<Rightarrow> stack \<Rightarrow> construct list" where
  "permissions_of f s = filter (\<lambda>x. kind x = Permission \<and> owner x = Some f) (constructs s)"

definition resolver_fields :: "construct \<Rightarrow> val \<times> val \<times> val \<times> val" where
  "resolver_fields c =
     (field ''typeName'' (props c), field ''fieldName'' (props c),
      field ''requestMappingTemplate'' (props c), field ''responseMappingTemplate'' (props c))"

definition default_authorizationType :: "val \<Rightarrow> val" where
  "default_authorizationType p =
     path [''authorizationConfig'', ''defaultAuthorization'', ''authorizationType''] p"

text \<open>Every mapping template that occurs in a property bag, with the owner of its construct.\<close>

fun val_templates :: "val \<Rightarrow> string list" where
  "val_templates (MappingTemplateFromString t) = [t]"
| "val_templates (SchemaFromAsset v) = val_templates v"
| "val_templates (PolicyDocument v) = val_templates v"
| "val_templates (PolicyStatement v) = val_templates v"
| "val_templates (Arr vs) = concat (map val_templates vs)"
| "val_templates (Obj kvs) = concat (map (\<lambda>kv. val_templates (snd kv)) kvs)"
| "val_templates _ = []"

definition mapping_templates :: "stack \<Rightarrow> (ident option \<times> string) list" where
  "mapping_templates s =
     concat (map (\<lambda>x. map (\<lambda>t. (owner x, t)) (val_templates (props x))) (constructs s))"

text \<open>
  The placeholders \<^verbatim>\<open><name>\<close> of an input template, from left to right: the places
  where the event router splices in what the input paths extracted from the event.
\<close>

function placeholders :: "string \<Rightarrow> string list" where
  "placeholders [] = []"
| "placeholders (c # cs) =
     (if c = CHR ''<'' \<and> CHR ''>'' \<in> set cs
      then takeWhile (\<lambda>x. x \<noteq> CHR ''>'') cs # placeholders (dropWhile (\<lambda>x. x \<noteq> CHR ''>'') cs)
      else placeholders cs)"
  by pat_completeness auto
termination
  by (relation "measure length") (auto simp: length_dropWhile_le less_Suc_eq_le)

section \<open>The constructs of the stack, in order of declaration\<close>

lemma api_name: "field ''name'' (api_props e) = str ''TriggeredByEventBridge''"
  by (simp add: api_props_def)

lemma MainStack_constructs:
  "constructs (MainStack e) =
    [\<lparr>cid = ''authDomainName'', kind = CfnParameter, owner = None,
        props = authDomainParameter_props,
        dependsOn = by_library (library_dependsOn e) CfnParameter ''authDomainName''\<rparr>,
     \<lparr>cid = ''Auth'', kind = Auth, owner = None, props = auth_props,
        dependsOn = by_library (library_dependsOn e) Auth ''Auth''\<rparr>,
     \<lparr>cid = ''AuthorizerFunction'', kind = PythonFunction, owner = None,
        props = authorizerFunction_props e,
        dependsOn = by_library (library_dependsOn e) PythonFunction ''AuthorizerFunction''\<rparr>,
     \<lparr>cid = ''Api'', kind = GraphqlApi, owner = None, props = api_props e,
        dependsOn = by_library (library_dependsOn e) GraphqlApi ''Api''\<rparr>,
     \<lparr>cid = ''AppSyncInvokeLambdaPermission'', kind = Permission,
        owner = Some ''AuthorizerFunction'', props = permission_props e,
        dependsOn = by_library (library_dependsOn e) Permission
                      ''AppSyncInvokeLambdaPermission''\<rparr>,
     \<lparr>cid = ''NONE'', kind = NoneDataSource, owner = Some ''Api'', props = Obj [],
        dependsOn = by_library (library_dependsOn e) NoneDataSource ''NONE''\<rparr>,
     \<lparr>cid = [], kind = Resolver, owner = Some ''NONE'', props = resolver_props,
        dependsOn = by_library (library_dependsOn e) Resolver []\<rparr>,
     \<lparr>cid = ''bus'', kind = CfnEventBus, owner = None, props = bus_props,
        dependsOn = by_library (library_dependsOn e) CfnEventBus ''bus''\<rparr>,
     \<lparr>cid = ''connection'', kind = CfnConnection, owner = None, props = connection_props,
        dependsOn = by_library (library_dependsOn e) CfnConnection ''connection''\<rparr>,
     \<lparr>cid = ''destination'', kind = CfnApiDestination, owner = None,
        props = destination_props,
        dependsOn = by_library (library_dependsOn e) CfnApiDestination ''destination''\<rparr>,
     \<lparr>cid = ''role'', kind = Role, owner = None, props = role_props,
        dependsOn = by_library (library_dependsOn e) Role ''role''\<rparr>,
     \<lparr>cid = ''rule'', kind = CfnRule, owner = None, props = rule_props,
        dependsOn = by_library (library_dependsOn e) CfnRule ''rule'' @
                    [(ByConstructor, ''bus'')]\<rparr>,
     \<lparr>cid = ''apiId'', kind = CfnOutput, owner = None,
        props = Obj [(''value'', T (Attr ''Api'' ''apiId''))],
        dependsOn = by_library (library_dependsOn e) CfnOutput ''apiId''\<rparr>,
     \<lparr>cid = ''apiName'', kind = CfnOutput, owner = None,
        props = Obj [(''value'', str ''TriggeredByEventBridge'')],
        dependsOn = by_library (library_dependsOn e) CfnOutput ''apiName''\<rparr>,
     \<lparr>cid = ''graphqlUrl'', kind = CfnOutput, owner = None,
        props = Obj [(''value'', T (Attr ''Api'' ''graphqlUrl''))],
        dependsOn = by_library (library_dependsOn e) CfnOutput ''graphqlUrl''\<rparr>,
     \<lparr>cid = ''apiKey'', kind = CfnOutput, owner = None,
        props = Obj [(''value'', opt_tok (apiKey_of e (api_props e)))],
        dependsOn = by_library (library_dependsOn e) CfnOutput ''apiKey''\<rparr>]"
  by (simp add: MainStack_def Let_def new_def new_through_def addDependsOn_def api_name)

lemma by_library_not_constructor:
  "filter (\<lambda>d. fst d = ByConstructor) (by_library l k i) = []"
  by (simp add: by_library_def filter_empty_conv)

lemma references_opt_str: "val_refs (opt_str x) = []"
  by (cases x) simp_all

lemma props_rule: "props_of ''rule'' (MainStack e) = rule_props"
  by (simp add: props_of_def lookup_def MainStack_constructs)

lemma props_connection: "props_of ''connection'' (MainStack e) = connection_props"
  by (simp add: props_of_def lookup_def MainStack_constructs)

lemma props_destination: "props_of ''destination'' (MainStack e) = destination_props"
  by (simp add: props_of_def lookup_def MainStack_constructs)

lemma props_Api: "props_of ''Api'' (MainStack e) = api_props e"
  by (simp add: props_of_def lookup_def MainStack_constructs)

lemma resolvers:
  "of_kind Resolver (MainStack e) =
     [\<lparr>cid = [], kind = Resolver, owner = Some ''NONE'', props = resolver_props,
       dependsOn = by_library (library_dependsOn e) Resolver []\<rparr>]"
  by (simp add: of_kind_def MainStack_constructs)

section \<open>The input template of the rule\<close>

lemma replace_newline_space_no_newline: "CHR 0x0A \<notin> set (replace_newline_space s)"
  by (induction s rule: replace_newline_space.induct) auto

lemma replace_newline_space_id: "CHR 0x0A \<notin> set s \<Longrightarrow> replace_newline_space s = s"
  by (induction s) auto

text \<open>
  One step of the replacement: a line feed and the white space after it, up to the
  next character that is not white space, become a single space.
\<close>

lemma replace_newline_space_step:
  assumes "CHR 0x0A \<notin> set a" and "\<forall>c \<in> set w. js_space c"
    and "b = [] \<or> \<not> js_space (hd b)"
  shows "replace_newline_space (a @ CHR 0x0A # w @ b) = a @ CHR 0x20 # replace_newline_space b"
proof -
  have drop: "dropWhile js_space (w @ b) = b"
    using assms(2,3) by (cases b) (simp_all add: dropWhile_append2)
  from assms(1) show ?thesis
    by (induction a) (auto simp: drop)
qed

lemma inputTemplate_value:
  \<open>replace_newline_space inputTemplate_literal = ''{ "query": "mutation UpdateTodo($id:ID!, $name:String, $description:String) { updateTodo(id:$id, name:$name, description:$description) { id name description createdAt updatedAt } }", "variables": { "id": "<id>", "name": "<name>", "description": "<description>" } }''\<close>
  by (simp add: inputTemplate_literal_def js_space_def)

lemma inputTemplate_placeholders:
  \<open>placeholders ''{ "query": "mutation UpdateTodo($id:ID!, $name:String, $description:String) { updateTodo(id:$id, name:$name, description:$description) { id name description createdAt updatedAt } }", "variables": { "id": "<id>", "name": "<name>", "description": "<description>" } }'' = [''id'', ''name'', ''description'']\<close>
  by simp

section \<open>The request template\<close>

lemma map_of_put: "map_of (put k v m) = (map_of m)(k \<mapsto> v)"
  by (induction m) (auto simp: fun_eq_iff)

lemma render_args:
  "arguments (ctx (snd (requestTemplate_render u s))) =
     put ''updatedAt'' (JStr (time_nowISO8601 u (clock_reads s)))
       (put ''createdAt'' (JStr (time_nowISO8601 u (clock_reads s))) (arguments (ctx s)))"
  by (simp add: requestTemplate_render_def nowISO8601_def args_put_def)

lemma val_templates_opt_str: "val_templates (opt_str x) = []"
  by (cases x) simp_all

lemma val_templates_opt_tok: "val_templates (opt_tok x) = []"
  by (cases x) simp_all

lemma MainStack_templates:
  "mapping_templates (MainStack e) =
     [(Some ''NONE'', requestTemplate), (Some ''NONE'', responseTemplate)]"
  by (simp add: mapping_templates_def MainStack_constructs authDomainParameter_props_def
      auth_props_def authorizerFunction_props_def api_props_def permission_props_def
      resolver_props_def bus_props_def connection_props_def destination_props_def role_props_def
      rule_props_def val_templates_opt_str val_templates_opt_tok)

lemma templates_differ: "requestTemplate \<noteq> responseTemplate"
  by (simp add: requestTemplate_def responseTemplate_def)

section \<open>The claims\<close>

text \<open>
  Claim C1. The stack has one resolver, for \<^verbatim>\<open>Mutation.updateTodo\<close>, whose request and
  response mapping templates are the two template strings. Evaluating the request template
  reads the clock once, stores that reading in the arguments under \<^verbatim>\<open>createdAt\<close> and
  \<^verbatim>\<open>updatedAt\<close>, leaves every other argument and the result as they were, and emits a
  document whose payload is the JSON text of the arguments so extended. The response
  template emits the JSON text of the result and nothing else.
\<close>

theorem updateTodo_templates_transformation:
  "map resolver_fields (of_kind Resolver (MainStack e)) =
     [(str ''Mutation'', str ''updateTodo'',
       MappingTemplateFromString requestTemplate, MappingTemplateFromString responseTemplate)]
   \<and> fst (requestTemplate_render u s) =
       \<lparr>version = ''2017-02-28'',
        payload = toJson u (JObj (arguments (ctx (snd (requestTemplate_render u s)))))\<rparr>
   \<and> map_of (arguments (ctx (snd (requestTemplate_render u s)))) =
       (map_of (arguments (ctx s)))
         (''createdAt'' \<mapsto> JStr (time_nowISO8601 u (clock_reads s)),
          ''updatedAt'' \<mapsto> JStr (time_nowISO8601 u (clock_reads s)))
   \<and> clock_reads (snd (requestTemplate_render u s)) = Suc (clock_reads s)
   \<and> result (ctx (snd (requestTemplate_render u s))) = result (ctx s)
   \<and> responseTemplate_render u s = toJson u (result (ctx s))"
proof -
  have attached: "map resolver_fields (of_kind Resolver (MainStack e)) =
     [(str ''Mutation'', str ''updateTodo'',
       MappingTemplateFromString requestTemplate, MappingTemplateFromString responseTemplate)]"
    by (simp add: resolvers resolver_fields_def resolver_props_def)
  have emitted: "fst (requestTemplate_render u s) =
       \<lparr>version = ''2017-02-28'',
        payload = toJson u (JObj (arguments (ctx (snd (requestTemplate_render u s)))))\<rparr>"
    by (simp add: requestTemplate_render_def nowISO8601_def args_put_def)
  have injected: "map_of (arguments (ctx (snd (requestTemplate_render u s)))) =
       (map_of (arguments (ctx s)))
         (''createdAt'' \<mapsto> JStr (time_nowISO8601 u (clock_reads s)),
          ''updatedAt'' \<mapsto> JStr (time_nowISO8601 u (clock_reads s)))"
    by (simp only: render_args map_of_put)
  have once: "clock_reads (snd (requestTemplate_render u s)) = Suc (clock_reads s)"
    by (simp add: requestTemplate_render_def nowISO8601_def args_put_def)
  have kept: "result (ctx (snd (requestTemplate_render u s))) = result (ctx s)"
    by (simp add: requestTemplate_render_def nowISO8601_def args_put_def)
  have passthrough: "responseTemplate_render u s = toJson u (result (ctx s))"
    by (simp add: responseTemplate_render_def)
  from attached emitted injected once kept passthrough show ?thesis
    by blast
qed

text \<open>
  Claim C2. Whatever the constructor reads from outside, the stack has exactly one routing
  rule, and its event pattern has the two keys \<^verbatim>\<open>source\<close> and \<^verbatim>\<open>detail-type\<close>, each
  with one fixed string: \<^verbatim>\<open>todos.system\<close> and \<^verbatim>\<open>todos update\<close>.
\<close>

theorem rule_eventPattern_fixed:
  "map cid (of_kind CfnRule (MainStack e)) = [''rule'']
   \<and> field ''eventPattern'' (props_of ''rule'' (MainStack e)) =
       Obj [(''source'', Arr [str ''todos.system'']),
            (''detail-type'', Arr [str ''todos update''])]
   \<and> path [''eventPattern'', ''source''] (props_of ''rule'' (MainStack e)) =
       Arr [str ''todos.system'']
   \<and> path [''eventPattern'', ''detail-type''] (props_of ''rule'' (MainStack e)) =
       Arr [str ''todos update'']"
  by (simp add: props_rule rule_props_def of_kind_def MainStack_constructs)

text \<open>
  Claim C3. The rule has a single target. Its \<^verbatim>\<open>arn\<close> is the ARN of the API destination,
  whose invocation endpoint is the URL of the GraphQL API. The input transformer of the
  target extracts the three paths \<^verbatim>\<open>$.detail.todo-id\<close>, \<^verbatim>\<open>$.detail.name\<close> and
  \<^verbatim>\<open>$.detail.description\<close> under the names \<^verbatim>\<open>id\<close>, \<^verbatim>\<open>name\<close> and \<^verbatim>\<open>description\<close>;
  its template is one constant string holding the \<^verbatim>\<open>UpdateTodo\<close> mutation, and the
  placeholders of that string are exactly those three names, so nothing else in the
  request body comes from the event.
\<close>

theorem mutation_request_shape:
  \<open>map (field ''arn'') (rule_targets (MainStack e)) = [T (Attr ''destination'' ''attrArn'')]
   \<and> kind_of ''destination'' (MainStack e) = Some CfnApiDestination
   \<and> field ''invocationEndpoint'' (props_of ''destination'' (MainStack e)) =
       T (Attr ''Api'' ''graphqlUrl'')
   \<and> kind_of ''Api'' (MainStack e) = Some GraphqlApi
   \<and> map (path [''inputTransformer'', ''inputPathsMap'']) (rule_targets (MainStack e)) =
       [Obj [(''id'', str ''$.detail.todo-id''), (''name'', str ''$.detail.name''),
             (''description'', str ''$.detail.description'')]]
   \<and> map (path [''inputTransformer'', ''inputTemplate'']) (rule_targets (MainStack e)) =
       [str ''{ "query": "mutation UpdateTodo($id:ID!, $name:String, $description:String) { updateTodo(id:$id, name:$name, description:$description) { id name description createdAt updatedAt } }", "variables": { "id": "<id>", "name": "<name>", "description": "<description>" } }'']
   \<and> placeholders ''{ "query": "mutation UpdateTodo($id:ID!, $name:String, $description:String) { updateTodo(id:$id, name:$name, description:$description) { id name description createdAt updatedAt } }", "variables": { "id": "<id>", "name": "<name>", "description": "<description>" } }'' = [''id'', ''name'', ''description'']\<close>
  by (simp only: inputTemplate_placeholders)
     (simp add: rule_targets_def props_rule rule_props_def inputTemplate_value kind_of_def
       lookup_def MainStack_constructs props_destination destination_props_def)

text \<open>
  Three dependencies of the stack that are not the passing of an ARN or an identifier.
  The rule names the event bus in \<^verbatim>\<open>addDependsOn\<close>, an explicit dependency. The API
  destination takes the URL of the GraphQL API as its invocation endpoint, a value that
  is neither an ARN nor an identifier. The invoke permission belongs to the authorizer
  function because it is created through \<^verbatim>\<open>addPermission\<close> of that function, while no
  value of the function occurs in its property bag.
\<close>

theorem dependencies_beyond_passed_arn_or_id:
  "(''rule'', ''bus'') \<in> set (explicit_deps ByConstructor (MainStack sample_env))
   \<and> (''destination'', ''Api'', Property ''graphqlUrl'') \<in>
       set (reference_deps (MainStack sample_env))
   \<and> \<not> arn_or_id ''graphqlUrl''
   \<and> (''AppSyncInvokeLambdaPermission'', ''AuthorizerFunction'') \<in>
       set (owner_links (MainStack sample_env))
   \<and> ''AuthorizerFunction'' \<notin>
       set (map fst (val_refs (props_of ''AppSyncInvokeLambdaPermission''
                                 (MainStack sample_env))))"
proof (intro conjI)
  show "(''rule'', ''bus'') \<in> set (explicit_deps ByConstructor (MainStack sample_env))"
    by (simp add: explicit_deps_def MainStack_constructs by_library_not_constructor)
  show "(''destination'', ''Api'', Property ''graphqlUrl'') \<in>
          set (reference_deps (MainStack sample_env))"
    by (simp add: reference_deps_def MainStack_constructs destination_props_def)
  show "\<not> arn_or_id ''graphqlUrl''"
    by (simp add: arn_or_id_def ends_with_def)
  show "(''AppSyncInvokeLambdaPermission'', ''AuthorizerFunction'') \<in>
          set (owner_links (MainStack sample_env))"
    by (simp add: owner_links_def MainStack_constructs)
  show "''AuthorizerFunction'' \<notin>
          set (map fst (val_refs (props_of ''AppSyncInvokeLambdaPermission''
                                    (MainStack sample_env))))"
    by (simp add: props_of_def lookup_def MainStack_constructs permission_props_def
          references_opt_str)
qed

text \<open>
  Claim C4, amended. For every construction of the stack, the dependencies between two
  constructs that the constructor declares are the following, and no others.

  \<^item> A value of one construct is passed as an input parameter of the other. The
    sixteen passings are listed with the property passed: ARNs and identifiers, and
    also the value of the parameter, the endpoint and the client secret of the auth
    construct, the URL of the API, the name of the bus, and the authorizer function
    itself as handler. The \<^verbatim>\<open>apiKey\<close> output refers to whatever the key issued by the
    library refers to.
  \<^item> A construct is created through a method of another: the permission through the
    authorizer function, the data source through the API, the resolver through the data
    source.
  \<^item> The routing rule declares an explicit dependency on the event bus, whose name it
    takes as \<^verbatim>\<open>eventBusName\<close> already. It is the only explicit dependency that the
    constructor declares.

  Explicit dependencies that the construct library declares on its own are a parameter
  and are not constrained.
\<close>

theorem dependencies_declared_by_constructor:
  "reference_deps (MainStack e) =
     [(''Auth'', ''authDomainName'', Property ''valueAsString''),
      (''AuthorizerFunction'', ''Auth'', Property ''userPoolId''),
      (''AuthorizerFunction'', ''Auth'', Property ''destinationClientId''),
      (''Api'', ''AuthorizerFunction'', Itself),
      (''AppSyncInvokeLambdaPermission'', ''Api'', Property ''arn''),
      (''connection'', ''Auth'', Property ''authEndpoint''),
      (''connection'', ''Auth'', Property ''destinationClientId''),
      (''connection'', ''Auth'', Property ''destinationClientSecret''),
      (''destination'', ''connection'', Property ''attrArn''),
      (''destination'', ''Api'', Property ''graphqlUrl''),
      (''role'', ''destination'', Property ''ref''),
      (''rule'', ''bus'', Property ''attrName''),
      (''rule'', ''destination'', Property ''attrArn''),
      (''rule'', ''role'', Property ''roleArn''),
      (''apiId'', ''Api'', Property ''apiId''),
      (''graphqlUrl'', ''Api'', Property ''graphqlUrl'')]
     @ map (Pair ''apiKey'') (val_refs (opt_tok (apiKey_of e (api_props e))))
   \<and> owner_links (MainStack e) =
     [(''AppSyncInvokeLambdaPermission'', ''AuthorizerFunction''),
      (''NONE'', ''Api''),
      ([], ''NONE'')]
   \<and> explicit_deps ByConstructor (MainStack e) = [(''rule'', ''bus'')]"
proof (intro conjI)
  show "reference_deps (MainStack e) =
     [(''Auth'', ''authDomainName'', Property ''valueAsString''),
      (''AuthorizerFunction'', ''Auth'', Property ''userPoolId''),
      (''AuthorizerFunction'', ''Auth'', Property ''destinationClientId''),
      (''Api'', ''AuthorizerFunction'', Itself),
      (''AppSyncInvokeLambdaPermission'', ''Api'', Property ''arn''),
      (''connection'', ''Auth'', Property ''authEndpoint''),
      (''connection'', ''Auth'', Property ''destinationClientId''),
      (''connection'', ''Auth'', Property ''destinationClientSecret''),
      (''destination'', ''connection'', Property ''attrArn''),
      (''destination'', ''Api'', Property ''graphqlUrl''),
      (''role'', ''destination'', Property ''ref''),
      (''rule'', ''bus'', Property ''attrName''),
      (''rule'', ''destination'', Property ''attrArn''),
      (''rule'', ''role'', Property ''roleArn''),
      (''apiId'', ''Api'', Property ''apiId''),
      (''graphqlUrl'', ''Api'', Property ''graphqlUrl'')]
     @ map (Pair ''apiKey'') (val_refs (opt_tok (apiKey_of e (api_props e))))"
    by (simp add: reference_deps_def MainStack_constructs authDomainParameter_props_def
          auth_props_def authorizerFunction_props_def api_props_def permission_props_def
          resolver_props_def bus_props_def connection_props_def destination_props_def
          role_props_def rule_props_def references_opt_str)
  show "owner_links (MainStack e) =
     [(''AppSyncInvokeLambdaPermission'', ''AuthorizerFunction''),
      (''NONE'', ''Api''),
      ([], ''NONE'')]"
    by (simp add: owner_links_def MainStack_constructs)
  show "explicit_deps ByConstructor (MainStack e) = [(''rule'', ''bus'')]"
    by (simp add: explicit_deps_def MainStack_constructs by_library_not_constructor)
qed

text \<open>
  Claim C5. The connection is declared with authorization type
  \<^verbatim>\<open>OAUTH_CLIENT_CREDENTIALS\<close>; its authorization endpoint is the endpoint of the auth
  construct followed by \<^verbatim>\<open>/oauth2/token\<close>, its HTTP method is \<^verbatim>\<open>POST\<close>, its client
  parameters are the destination client id and secret of the auth construct, and its one
  body parameter is \<^verbatim>\<open>grant_type=client_credentials\<close>. The \<^verbatim>\<open>connectionArn\<close> of the API
  destination is the ARN of that connection.
\<close>

theorem connection_is_oauth_client_credentials:
  "kind_of ''connection'' (MainStack e) = Some CfnConnection
   \<and> field ''authorizationType'' (props_of ''connection'' (MainStack e)) =
       str ''OAUTH_CLIENT_CREDENTIALS''
   \<and> path [''authParameters'', ''OAuthParameters'', ''AuthorizationEndpoint'']
        (props_of ''connection'' (MainStack e)) =
       T (Cat [Attr ''Auth'' ''authEndpoint'', Str ''/oauth2/token''])
   \<and> path [''authParameters'', ''OAuthParameters'', ''HttpMethod'']
        (props_of ''connection'' (MainStack e)) = str ''POST''
   \<and> path [''authParameters'', ''OAuthParameters'', ''ClientParameters'']
        (props_of ''connection'' (MainStack e)) =
       Obj [(''ClientID'', T (Attr ''Auth'' ''destinationClientId'')),
            (''ClientSecret'', T (Attr ''Auth'' ''destinationClientSecret''))]
   \<and> path [''authParameters'', ''OAuthParameters'', ''OAuthHttpParameters'', ''BodyParameters'']
        (props_of ''connection'' (MainStack e)) =
       Arr [Obj [(''Key'', str ''grant_type''), (''Value'', str ''client_credentials'')]]
   \<and> kind_of ''Auth'' (MainStack e) = Some Auth
   \<and> kind_of ''destination'' (MainStack e) = Some CfnApiDestination
   \<and> field ''connectionArn'' (props_of ''destination'' (MainStack e)) =
       T (Attr ''connection'' ''attrArn'')"
  by (simp add: props_connection props_destination connection_props_def destination_props_def
       kind_of_def lookup_def MainStack_constructs)

text \<open>
  Claim C6. The constructor declares the auth domain, the authorizer function, the
  GraphQL API, the event bus, the connection, the API destination, the role and the
  routing rule, and wires them: the rule's \<^verbatim>\<open>eventBusName\<close> is the name of the bus, the
  \<^verbatim>\<open>arn\<close> and \<^verbatim>\<open>roleArn\<close> of its target are the ARNs of the destination and of the
  role, the destination's \<^verbatim>\<open>connectionArn\<close> is the ARN of the connection, and the one
  permission added to the authorizer function has the ARN of the API as its
  \<^verbatim>\<open>sourceArn\<close>.
\<close>

theorem MainStack_resources_wired:
  "kind_of ''Auth'' (MainStack e) = Some Auth
   \<and> kind_of ''AuthorizerFunction'' (MainStack e) = Some PythonFunction
   \<and> kind_of ''Api'' (MainStack e) = Some GraphqlApi
   \<and> kind_of ''bus'' (MainStack e) = Some CfnEventBus
   \<and> kind_of ''connection'' (MainStack e) = Some CfnConnection
   \<and> kind_of ''destination'' (MainStack e) = Some CfnApiDestination
   \<and> kind_of ''role'' (MainStack e) = Some Role
   \<and> kind_of ''rule'' (MainStack e) = Some CfnRule
   \<and> field ''authDomainPrefix'' (props_of ''Auth'' (MainStack e)) =
       T (Attr ''authDomainName'' ''valueAsString'')
   \<and> field ''eventBusName'' (props_of ''rule'' (MainStack e)) = T (Attr ''bus'' ''attrName'')
   \<and> map (field ''arn'') (rule_targets (MainStack e)) = [T (Attr ''destination'' ''attrArn'')]
   \<and> map (field ''roleArn'') (rule_targets (MainStack e)) = [T (Attr ''role'' ''roleArn'')]
   \<and> field ''connectionArn'' (props_of ''destination'' (MainStack e)) =
       T (Attr ''connection'' ''attrArn'')
   \<and> map (field ''sourceArn'')
        (map props (permissions_of ''AuthorizerFunction'' (MainStack e))) =
       [T (Attr ''Api'' ''arn'')]"
  by (simp add: kind_of_def lookup_def MainStack_constructs props_rule rule_props_def
       rule_targets_def props_destination destination_props_def permissions_of_def
       permission_props_def props_of_def auth_props_def)

text \<open>
  Claim C7. The mapping templates that occur anywhere in the stack are the request
  template and the response template, two different strings, both in the property bag
  of the one resolver. That resolver is created through the data source \<^verbatim>\<open>NONE\<close>, a
  none data source, for the field \<^verbatim>\<open>updateTodo\<close> of the type \<^verbatim>\<open>Mutation\<close>.
\<close>

theorem two_templates_one_resolver:
  "mapping_templates (MainStack e) =
     [(Some ''NONE'', requestTemplate), (Some ''NONE'', responseTemplate)]
   \<and> requestTemplate \<noteq> responseTemplate
   \<and> map owner (of_kind Resolver (MainStack e)) = [Some ''NONE'']
   \<and> kind_of ''NONE'' (MainStack e) = Some NoneDataSource
   \<and> map resolver_fields (of_kind Resolver (MainStack e)) =
     [(str ''Mutation'', str ''updateTodo'',
       MappingTemplateFromString requestTemplate, MappingTemplateFromString responseTemplate)]"
  by (simp add: MainStack_templates templates_differ resolvers resolver_fields_def
       resolver_props_def kind_of_def lookup_def MainStack_constructs)

text \<open>
  Claim C8. After the request template has run, the arguments hold the same value under
  \<^verbatim>\<open>createdAt\<close> and under \<^verbatim>\<open>updatedAt\<close>: the one clock reading the template took, also
  when a second reading of the clock would have differed.
\<close>

theorem createdAt_equals_updatedAt:
  "map_of (arguments (ctx (snd (requestTemplate_render u s)))) ''createdAt'' =
     map_of (arguments (ctx (snd (requestTemplate_render u s)))) ''updatedAt''
   \<and> map_of (arguments (ctx (snd (requestTemplate_render u s)))) ''createdAt'' =
     Some (JStr (time_nowISO8601 u (clock_reads s)))
   \<and> map_of (arguments (ctx (snd (requestTemplate_render u s)))) ''updatedAt'' =
     Some (JStr (time_nowISO8601 u (clock_reads s)))"
  by (simp add: render_args map_of_put)

text \<open>
  Claim C9. The default authorization mode of the API is \<^verbatim>\<open>API_KEY\<close> for every
  construction of the stack. Hence, with a construct library that defines the
  \<^verbatim>\<open>apiKey\<close> property of every API whose default mode is \<^verbatim>\<open>API_KEY\<close>, the value given
  to the \<^verbatim>\<open>apiKey\<close> output is defined.
\<close>

theorem apiKey_output_defined:
  assumes "\<forall>p. default_authorizationType p = Enum ''API_KEY'' \<longrightarrow> apiKey_of e p \<noteq> None"
  shows "default_authorizationType (props_of ''Api'' (MainStack e)) = Enum ''API_KEY''
    \<and> field ''value'' (props_of ''apiKey'' (MainStack e)) \<noteq> Undefined"
proof -
  have mode: "default_authorizationType (api_props e) = Enum ''API_KEY''"
    by (simp add: default_authorizationType_def api_props_def)
  with assms obtain k where k: "apiKey_of e (api_props e) = Some k"
    by auto
  have "field ''value'' (props_of ''apiKey'' (MainStack e)) =
          opt_tok (apiKey_of e (api_props e))"
    by (simp add: props_of_def lookup_def MainStack_constructs)
  with k mode show ?thesis
    by (simp add: props_Api)
qed

theorem apiKey_output_defined_witness:
  "default_authorizationType (props_of ''Api'' (MainStack sample_env)) = Enum ''API_KEY''
   \<and> field ''value'' (props_of ''apiKey'' (MainStack sample_env)) \<noteq> Undefined"
proof -
  have h: "\<forall>p. default_authorizationType p = Enum ''API_KEY'' \<longrightarrow>
             apiKey_of sample_env p \<noteq> None"
    by (simp add: sample_env_def default_authorizationType_def)
  from apiKey_output_defined [OF h] show ?thesis .
qed

text \<open>
  Claim C10. The result of the replacement has no line feed, whatever the string. The
  input template of the rule's target is the result of the replacement on the multi-line
  literal, and that result is the single line shown.
\<close>

theorem inputTemplate_single_line:
  \<open>CHR 0x0A \<notin> set (replace_newline_space x)
   \<and> map (path [''inputTransformer'', ''inputTemplate'']) (rule_targets (MainStack e)) =
       [str (replace_newline_space inputTemplate_literal)]
   \<and> replace_newline_space inputTemplate_literal = ''{ "query": "mutation UpdateTodo($id:ID!, $name:String, $description:String) { updateTodo(id:$id, name:$name, description:$description) { id name description createdAt updatedAt } }", "variables": { "id": "<id>", "name": "<name>", "description": "<description>" } }''\<close>
proof (intro conjI)
  show "CHR 0x0A \<notin> set (replace_newline_space x)"
    by (rule replace_newline_space_no_newline)
  show "map (path [''inputTransformer'', ''inputTemplate'']) (rule_targets (MainStack e)) =
       [str (replace_newline_space inputTemplate_literal)]"
    by (simp add: rule_targets_def props_rule rule_props_def)
  show \<open>replace_newline_space inputTemplate_literal = ''{ "query": "mutation UpdateTodo($id:ID!, $name:String, $description:String) { updateTodo(id:$id, name:$name, description:$description) { id name description createdAt updatedAt } }", "variables": { "id": "<id>", "name": "<name>", "description": "<description>" } }''\<close>
    by (rule inputTemplate_value)
qed

end
